theory Spec2Isabelle
  imports Complex_Main "HOL-Library.AList"
begin

section \<open>The trading decision and position engine of \<^verbatim>\<open>trading_bot.py\<close>\<close>

text \<open>
  A shallow embedding of class \<^verbatim>\<open>TradingBot\<close>. The exchange object is a record of the
  answers it gives, and every \<^verbatim>\<open>try/except\<close> of the source is a case split on an answer
  that may be missing. A method that mutates \<^verbatim>\<open>self\<close> takes the bot and returns the
  updated one; a method that talks to the exchange also returns the list of order requests
  it has sent, in the order of sending.
\<close>

subsection \<open>Floats\<close>

text \<open>
  A Python float is a value of a type \<open>'f\<close>. Its comparisons \<^verbatim>\<open><\<close>, \<^verbatim>\<open><=\<close>, \<^verbatim>\<open>==\<close> are a
  linear order (not-a-number is no value of the type, and the two zeros are one value). Its
  arithmetic is a parameter: the conversion of a numeric literal or an \<^verbatim>\<open>int\<close>, the four
  operations \<^verbatim>\<open>+ - * /\<close> and the unary minus. Nothing is assumed of these operations, so
  what is proved holds for the rounding arithmetic of the machine as it does for the exact
  one.
\<close>

record 'f arith =
  flit :: "real \<Rightarrow> 'f"
  fadd :: "'f \<Rightarrow> 'f \<Rightarrow> 'f"
  fsub :: "'f \<Rightarrow> 'f \<Rightarrow> 'f"
  fmul :: "'f \<Rightarrow> 'f \<Rightarrow> 'f"
  fdiv :: "'f \<Rightarrow> 'f \<Rightarrow> 'f"
  fneg :: "'f \<Rightarrow> 'f"

text \<open>\<^verbatim>\<open>sum(xs)\<close>: the additions from the left, starting from the \<^verbatim>\<open>int\<close> 0.\<close>

definition fsum :: "'f arith \<Rightarrow> 'f list \<Rightarrow> 'f" where
  "fsum fp xs = foldl (fadd fp) (flit fp 0) xs"

subsection \<open>Data\<close>

text \<open>The strings \<^verbatim>\<open>'buy'\<close>, \<^verbatim>\<open>'sell'\<close> and \<^verbatim>\<open>'hold'\<close> of the source.\<close>

datatype signal = Buy | Sell | Hold

text \<open>The exceptions the modelled code can raise by itself.\<close>

datatype py_error = ZeroDivisionError | IndexError | RuntimeError | ValueError

type_synonym date = nat

text \<open>
  The arguments of one \<^verbatim>\<open>exchange.create_order(symbol, type, side, amount, price, params)\<close>
  call; \<open>req_stop_price\<close> is \<^verbatim>\<open>params['stopPrice']\<close>.
\<close>

record 'f order_request =
  req_symbol :: string
  req_type :: string
  req_side :: signal
  req_amount :: 'f
  req_price :: "'f option"
  req_stop_price :: "'f option"

text \<open>The order dictionary the exchange answers with; the bot reads only its \<^verbatim>\<open>'id'\<close>.\<close>

record order =
  order_id :: string

text \<open>The dictionary stored in \<^verbatim>\<open>self.positions[symbol]\<close>.\<close>

record 'f position =
  side :: signal
  amount :: 'f
  entry_price :: 'f
  timestamp :: string
  pos_order_id :: string

text \<open>
  What lies outside the bot: the exchange (an answer of \<open>None\<close> is a raised exception),
  the clock, and whether the caller runs inside an asyncio event loop.
\<close>

record 'f world =
  loop_running :: bool
  today :: date
  now_iso :: string
  fetch_balance :: "(string \<rightharpoonup> (string \<rightharpoonup> 'f)) option"
  fetch_ticker :: "string \<Rightarrow> (string \<rightharpoonup> 'f) option"
  fetch_ohlcv :: "string \<Rightarrow> string \<Rightarrow> nat \<Rightarrow> 'f list list option"
  create_order :: "'f order_request \<Rightarrow> order option"

text \<open>
  The attributes of \<^verbatim>\<open>TradingBot\<close>. \<open>positions\<close> is the dictionary
  \<^verbatim>\<open>self.positions\<close>, kept as an association list in insertion order so that
  \<^verbatim>\<open>len\<close> can be computed.
\<close>

record 'f trading_bot =
  exchange_name :: string
  sandbox :: bool
  default_symbol :: string
  trade_amount :: 'f
  stop_loss_percent :: 'f
  take_profit_percent :: 'f
  max_positions :: int
  max_daily_loss :: 'f
  min_balance :: 'f
  is_trading :: bool
  positions :: "(string \<times> 'f position) list"
  daily_pnl :: 'f
  last_reset_date :: date

text \<open>The dictionary returned by \<^verbatim>\<open>get_status\<close>.\<close>

record 'f status =
  st_is_trading :: bool
  st_positions :: nat
  st_daily_pnl :: 'f
  st_exchange :: string
  st_sandbox :: bool

subsection \<open>Calls to the exchange\<close>

text \<open>
  \<^verbatim>\<open>asyncio.run(coro)\<close> raises \<^verbatim>\<open>RuntimeError\<close> when an event loop is already running
  in the calling thread, and otherwise runs the coroutine to its result.
\<close>

definition asyncio_run :: "'f world \<Rightarrow> 'a \<Rightarrow> py_error + 'a" where
  "asyncio_run w coro = (if loop_running w then Inl RuntimeError else Inr coro)"

text \<open>\<^verbatim>\<open>get_balance\<close>: the balance, or \<^verbatim>\<open>{}\<close> when the fetch raises.\<close>

definition get_balance :: "'f world \<Rightarrow> (string \<rightharpoonup> (string \<rightharpoonup> 'f))" where
  "get_balance w = (case fetch_balance w of Some balance \<Rightarrow> balance | None \<Rightarrow> Map.empty)"

text \<open>\<^verbatim>\<open>get_ticker\<close>: the ticker, or \<^verbatim>\<open>{}\<close> when the fetch raises.\<close>

definition get_ticker :: "'f world \<Rightarrow> string \<Rightarrow> (string \<rightharpoonup> 'f)" where
  "get_ticker w symbol = (case fetch_ticker w symbol of Some ticker \<Rightarrow> ticker | None \<Rightarrow> Map.empty)"

text \<open>\<^verbatim>\<open>get_ohlcv\<close>: the candles, or \<^verbatim>\<open>[]\<close> when the fetch raises.\<close>

definition get_ohlcv :: "'f world \<Rightarrow> string \<Rightarrow> string \<Rightarrow> nat \<Rightarrow> 'f list list" where
  "get_ohlcv w symbol timeframe limit =
     (case fetch_ohlcv w symbol timeframe limit of Some ohlcv \<Rightarrow> ohlcv | None \<Rightarrow> [])"

text \<open>\<^verbatim>\<open>d.get(key, 0)\<close> on a dictionary of numbers.\<close>

definition get_or_zero :: "'f arith \<Rightarrow> (string \<rightharpoonup> 'f) \<Rightarrow> string \<Rightarrow> 'f" where
  "get_or_zero fp d key = (case d key of Some v \<Rightarrow> v | None \<Rightarrow> flit fp 0)"

text \<open>\<^verbatim>\<open>balance.get('USDT', {}).get('free', 0)\<close>.\<close>

definition usdt_free :: "'f arith \<Rightarrow> (string \<rightharpoonup> (string \<rightharpoonup> 'f)) \<Rightarrow> 'f" where
  "usdt_free fp balance =
     get_or_zero fp (case balance ''USDT'' of Some info \<Rightarrow> info | None \<Rightarrow> Map.empty) ''free''"

subsection \<open>Signal evaluation\<close>

text \<open>
  \<^verbatim>\<open>calculate_sma\<close>: \<^verbatim>\<open>None\<close> on a history shorter than the period, else the sum of the
  last \<open>period\<close> prices divided by the period; a period of 0 passes the length test and
  divides by zero.
\<close>

definition calculate_sma :: "'f arith \<Rightarrow> 'f list \<Rightarrow> nat \<Rightarrow> py_error + 'f option" where
  "calculate_sma fp prices period =
     (if length prices < period then Inr None
      else if period = 0 then Inl ZeroDivisionError
      else Inr (Some (fdiv fp (fsum fp (drop (length prices - period) prices))
                               (flit fp (real period)))))"

text \<open>\<^verbatim>\<open>[candle[4] for candle in ohlcv]\<close>: a candle with fewer than five entries raises.\<close>

fun closes_of :: "'f list list \<Rightarrow> py_error + 'f list" where
  "closes_of [] = Inr []"
| "closes_of (candle # rest) =
     (if length candle \<le> 4 then Inl IndexError
      else (case closes_of rest of Inl e \<Rightarrow> Inl e | Inr cs \<Rightarrow> Inr (candle ! 4 # cs)))"

text \<open>
  The crossover decision of \<^verbatim>\<open>simple_strategy\<close> on the two averages and the last close;
  \<^verbatim>\<open>x / y\<close> on floats raises on \<open>y = 0\<close>.
\<close>

definition crossover ::
  "('f::linorder) arith \<Rightarrow> 'f \<Rightarrow> 'f \<Rightarrow> 'f \<Rightarrow> py_error + signal \<times> 'f" where
  "crossover fp sma_20 sma_50 current_price =
     (if sma_20 > sma_50 \<and> current_price > sma_20 then
        (if sma_50 = flit fp 0 then Inl ZeroDivisionError
         else Inr (Buy, min (fmul fp (fdiv fp (fsub fp sma_20 sma_50) sma_50) (flit fp 100))
                            (flit fp 1)))
      else if sma_20 < sma_50 \<and> current_price < sma_20 then
        (if sma_20 = flit fp 0 then Inl ZeroDivisionError
         else Inr (Sell, min (fmul fp (fdiv fp (fsub fp sma_50 sma_20) sma_20) (flit fp 100))
                             (flit fp 1)))
      else Inr (Hold, flit fp 0))"

text \<open>The body of the \<^verbatim>\<open>try\<close> block of \<^verbatim>\<open>simple_strategy\<close>.\<close>

definition simple_strategy_body ::
  "('f::linorder) arith \<Rightarrow> 'f world \<Rightarrow> string \<Rightarrow> py_error + signal \<times> 'f" where
  "simple_strategy_body fp w symbol =
     (case asyncio_run w (get_ohlcv w symbol ''1h'' 50) of
        Inl e \<Rightarrow> Inl e
      | Inr ohlcv \<Rightarrow>
          if ohlcv = [] then Inr (Hold, flit fp 0)
          else (case closes_of ohlcv of
                  Inl e \<Rightarrow> Inl e
                | Inr closes \<Rightarrow>
                    (case calculate_sma fp closes 20 of
                       Inl e \<Rightarrow> Inl e
                     | Inr sma_20 \<Rightarrow>
                         (case calculate_sma fp closes 50 of
                            Inl e \<Rightarrow> Inl e
                          | Inr sma_50 \<Rightarrow>
                              (case (sma_20, sma_50) of
                                 (Some s20, Some s50) \<Rightarrow> crossover fp s20 s50 (last closes)
                               | _ \<Rightarrow> Inr (Hold, flit fp 0))))))"

text \<open>\<^verbatim>\<open>simple_strategy\<close>: any exception of the body is logged and answered by hold.\<close>

definition simple_strategy :: "('f::linorder) arith \<Rightarrow> 'f world \<Rightarrow> string \<Rightarrow> signal \<times> 'f" where
  "simple_strategy fp w symbol =
     (case simple_strategy_body fp w symbol of Inl e \<Rightarrow> (Hold, flit fp 0) | Inr r \<Rightarrow> r)"

subsection \<open>Order submission\<close>

text \<open>
  \<^verbatim>\<open>place_order\<close> with the default order type \<^verbatim>\<open>'market'\<close>: the order, or \<^verbatim>\<open>{}\<close>
  (here \<open>None\<close>) when the side is rejected or the exchange raises; with it, the requests
  sent.
\<close>

definition market_request :: "string \<Rightarrow> signal \<Rightarrow> 'f \<Rightarrow> 'f order_request" where
  "market_request symbol sd amt =
     \<lparr>req_symbol = symbol, req_type = ''market'', req_side = sd,
      req_amount = amt, req_price = None, req_stop_price = None\<rparr>"

definition place_order ::
  "'f world \<Rightarrow> string \<Rightarrow> signal \<Rightarrow> 'f \<Rightarrow> order option \<times> 'f order_request list" where
  "place_order w symbol sd amt =
     (if sd \<noteq> Buy \<and> sd \<noteq> Sell then (None, [])
      else (create_order w (market_request symbol sd amt), [market_request symbol sd amt]))"

text \<open>The two exit requests of \<^verbatim>\<open>set_stop_loss_take_profit\<close>.\<close>

definition stop_request :: "string \<Rightarrow> signal \<Rightarrow> 'f \<Rightarrow> 'f \<Rightarrow> 'f order_request" where
  "stop_request symbol sd amt stop_loss_price =
     \<lparr>req_symbol = symbol, req_type = ''stop_market'', req_side = sd,
      req_amount = amt, req_price = None, req_stop_price = Some stop_loss_price\<rparr>"

definition limit_request :: "string \<Rightarrow> signal \<Rightarrow> 'f \<Rightarrow> 'f \<Rightarrow> 'f order_request" where
  "limit_request symbol sd amt take_profit_price =
     \<lparr>req_symbol = symbol, req_type = ''limit'', req_side = sd,
      req_amount = amt, req_price = Some take_profit_price, req_stop_price = None\<rparr>"

text \<open>
  The two \<^verbatim>\<open>create_order\<close> calls of one branch, in order; the first that raises ends the
  \<^verbatim>\<open>try\<close> block, and the handler returns \<^verbatim>\<open>(None, None)\<close>.
\<close>

definition submit_exits ::
  "'f world \<Rightarrow> 'f order_request \<Rightarrow> 'f order_request
     \<Rightarrow> (order option \<times> order option) \<times> 'f order_request list" where
  "submit_exits w stop_req tp_req =
     (case create_order w stop_req of
        None \<Rightarrow> ((None, None), [stop_req])
      | Some stop_order \<Rightarrow>
          (case create_order w tp_req of
             None \<Rightarrow> ((None, None), [stop_req, tp_req])
           | Some tp_order \<Rightarrow> ((Some stop_order, Some tp_order), [stop_req, tp_req])))"

definition set_stop_loss_take_profit ::
  "'f arith \<Rightarrow> 'f world \<Rightarrow> 'f trading_bot \<Rightarrow> string \<Rightarrow> signal \<Rightarrow> 'f \<Rightarrow> 'f
     \<Rightarrow> (order option \<times> order option) \<times> 'f order_request list" where
  "set_stop_loss_take_profit fp w self symbol sd entry amt =
     (if sd = Buy then
        (let stop_loss_price =
               fmul fp entry (fsub fp (flit fp 1) (fdiv fp (stop_loss_percent self) (flit fp 100)));
             take_profit_price =
               fmul fp entry (fadd fp (flit fp 1) (fdiv fp (take_profit_percent self) (flit fp 100)))
         in submit_exits w (stop_request symbol Sell amt stop_loss_price)
                           (limit_request symbol Sell amt take_profit_price))
      else
        (let stop_loss_price =
               fmul fp entry (fadd fp (flit fp 1) (fdiv fp (stop_loss_percent self) (flit fp 100)));
             take_profit_price =
               fmul fp entry (fsub fp (flit fp 1) (fdiv fp (take_profit_percent self) (flit fp 100)))
         in submit_exits w (stop_request symbol Buy amt stop_loss_price)
                           (limit_request symbol Buy amt take_profit_price)))"

subsection \<open>Risk gate\<close>

text \<open>
  The balance test of \<^verbatim>\<open>check_risk_management\<close>: \<open>True\<close> when it denies. An exception
  inside its \<^verbatim>\<open>try\<close> block is passed over.
\<close>

definition balance_too_low :: "('f::linorder) arith \<Rightarrow> 'f world \<Rightarrow> 'f trading_bot \<Rightarrow> bool" where
  "balance_too_low fp w self =
     (case asyncio_run w (get_balance w) of
        Inl e \<Rightarrow> False
      | Inr balance \<Rightarrow> usdt_free fp balance < min_balance self)"

definition check_risk_management ::
  "('f::linorder) arith \<Rightarrow> 'f world \<Rightarrow> 'f trading_bot \<Rightarrow> bool \<times> 'f trading_bot" where
  "check_risk_management fp w self =
     (let current_date = today w;
          self1 = (if current_date > last_reset_date self
                  then self\<lparr>daily_pnl := flit fp 0, last_reset_date := current_date\<rparr>
                  else self)
      in if daily_pnl self1 \<le> fneg fp (max_daily_loss self1) then (False, self1)
         else if balance_too_low fp w self1 then (False, self1)
         else if int (length (positions self1)) \<ge> max_positions self1 then (False, self1)
         else (True, self1))"

subsection \<open>Execution\<close>

text \<open>
  \<^verbatim>\<open>execute_trade\<close>: the order or \<^verbatim>\<open>None\<close>, the bot afterwards, and the order requests
  sent to the exchange. The source tests the price with \<^verbatim>\<open>if not current_price\<close>, which
  holds of a float exactly when it is zero.
\<close>

definition execute_trade ::
  "('f::linorder) arith \<Rightarrow> 'f world \<Rightarrow> 'f trading_bot \<Rightarrow> string
     \<Rightarrow> order option \<times> 'f trading_bot \<times> 'f order_request list" where
  "execute_trade fp w self symbol =
     (let (ok, self1) = check_risk_management fp w self
      in if \<not> ok then (None, self1, [])
         else
           (let (sig, confidence) = simple_strategy fp w symbol
            in if sig = Hold \<or> confidence < flit fp (3 / 10) then (None, self1, [])
               else
                 (let ticker = get_ticker w symbol;
                      current_price = get_or_zero fp ticker ''last''
                  in if current_price = flit fp 0 then (None, self1, [])
                     else
                       (let amt = fdiv fp (trade_amount self1) current_price;
                            (order, sent) = place_order w symbol sig amt
                        in case order of
                             None \<Rightarrow> (None, self1, sent)
                           | Some ord \<Rightarrow>
                               (let (exits, sent') =
                                      set_stop_loss_take_profit fp w self1 symbol sig
                                        current_price amt
                                in (Some ord,
                                    self1\<lparr>positions :=
                                      AList.update symbol
                                        \<lparr>side = sig, amount = amt, entry_price = current_price,
                                         timestamp = now_iso w, pos_order_id = order_id ord\<rparr>
                                        (positions self1)\<rparr>,
                                    sent @ sent'))))))"

subsection \<open>Control surface\<close>



text \<open>\<^verbatim>\<open>get_status\<close>: the status dictionary and the bot afterwards.\<close>

definition get_status :: "'f trading_bot \<Rightarrow> 'f status \<times> 'f trading_bot" where
  "get_status self =
     (\<lparr>st_is_trading = is_trading self,
       st_positions = length (positions self),
       st_daily_pnl = daily_pnl self,
       st_exchange = exchange_name self,
       st_sandbox = sandbox self\<rparr>, self)"

subsection \<open>Notions of the specification\<close>

text \<open>The current price as \<^verbatim>\<open>execute_trade\<close> reads it: \<^verbatim>\<open>ticker.get('last', 0)\<close>.\<close>

abbreviation current_price_of :: "'f arith \<Rightarrow> 'f world \<Rightarrow> string \<Rightarrow> 'f" where
  "current_price_of fp w symbol \<equiv> get_or_zero fp (get_ticker w symbol) ''last''"

text \<open>The side, the quantity and the ledger entry of the trade that \<^verbatim>\<open>execute_trade\<close> enters.\<close>

abbreviation entry_side :: "('f::linorder) arith \<Rightarrow> 'f world \<Rightarrow> string \<Rightarrow> signal" where
  "entry_side fp w symbol \<equiv> fst (simple_strategy fp w symbol)"

abbreviation entry_amount :: "'f arith \<Rightarrow> 'f world \<Rightarrow> 'f trading_bot \<Rightarrow> string \<Rightarrow> 'f" where
  "entry_amount fp w self symbol \<equiv> fdiv fp (trade_amount self) (current_price_of fp w symbol)"

abbreviation recorded_position ::
  "('f::linorder) arith \<Rightarrow> 'f world \<Rightarrow> 'f trading_bot \<Rightarrow> string \<Rightarrow> order \<Rightarrow> 'f position" where
  "recorded_position fp w self symbol ord \<equiv>
     \<lparr>side = entry_side fp w symbol, amount = entry_amount fp w self symbol,
      entry_price = current_price_of fp w symbol, timestamp = now_iso w,
      pos_order_id = order_id ord\<rparr>"

text \<open>
  The call passes every early return of \<^verbatim>\<open>execute_trade\<close> and submits the entry order: the
  gate allows, the signal is not hold, the confidence is not below 0.3 and the price is not
  zero.
\<close>

definition reaches_entry :: "('f::linorder) arith \<Rightarrow> 'f world \<Rightarrow> 'f trading_bot \<Rightarrow> string \<Rightarrow> bool" where
  "reaches_entry fp w self symbol =
     (fst (check_risk_management fp w self) \<and> entry_side fp w symbol \<noteq> Hold \<and>
      \<not> snd (simple_strategy fp w symbol) < flit fp (3 / 10) \<and>
      current_price_of fp w symbol \<noteq> flit fp 0)"


text \<open>
  The ledger invariant of the specification: one entry per instrument, each with a positive
  quantity and a positive entry price.
\<close>

definition ledger_inv :: "('f::linorder) arith \<Rightarrow> 'f trading_bot \<Rightarrow> bool" where
  "ledger_inv fp self =
     (distinct (map fst (positions self)) \<and>
      list_all (\<lambda>(symbol, p). flit fp 0 < amount p \<and> flit fp 0 < entry_price p)
        (positions self))"

subsection \<open>Concrete bots and worlds\<close>

text \<open>
  The exact arithmetic on the reals. The numbers of the concrete bots and worlds below are
  such that the source, computing in double precision, arrives at the same signals and at
  the doubles nearest to the same prices and quantities.
\<close>

definition exact :: "real arith" where
  "exact = \<lparr>flit = (\<lambda>x. x), fadd = (+), fsub = (-), fmul = (*), fdiv = (/), fneg = uminus\<rparr>"

text \<open>The bot as \<^verbatim>\<open>__init__\<close> builds it from the default settings.\<close>

definition default_bot :: "real trading_bot" where
  "default_bot =
     \<lparr>exchange_name = ''binance'', sandbox = True, default_symbol = ''BTC/USDT'',
      trade_amount = 10, stop_loss_percent = 2, take_profit_percent = 5,
      max_positions = 3, max_daily_loss = 100, min_balance = 50,
      is_trading = False, positions = [], daily_pnl = 0, last_reset_date = 19000\<rparr>"

text \<open>A position opened the day before, and the default bot holding it.\<close>

definition held_position :: "real position" where
  "held_position =
     \<lparr>side = Sell, amount = 2, entry_price = 90,
      timestamp = ''2022-01-07T09:00:00'', pos_order_id = ''7''\<rparr>"

definition held_bot :: "real trading_bot" where
  "held_bot = default_bot\<lparr>positions := [(''BTC/USDT'', held_position)]\<rparr>"

text \<open>A candle \<^verbatim>\<open>[timestamp, open, high, low, close, volume]\<close> with the given close.\<close>

definition candle :: "real \<Rightarrow> real list" where
  "candle c = [0, c, c, c, c, 1000]"

text \<open>
  Histories of fifty closes: forty-nine at 100 and a last one at 200; the same ending in a
  fall to 50; fifty at 100; and fifty around 128 whose averages are 128.5 and 128.
\<close>

definition rising_closes :: "real list" where
  "rising_closes = replicate 49 100 @ [200]"






text \<open>
  A world in which every call succeeds, outside any event loop: 1000 USDT free, a last price
  of 100, the rising history, and every order accepted with the identifier 42.
\<close>

definition calm_world :: "real world" where
  "calm_world =
     \<lparr>loop_running = False, today = 19000, now_iso = ''2022-01-08T12:00:00'',
      fetch_balance = Some [''USDT'' \<mapsto> [''free'' \<mapsto> 1000]],
      fetch_ticker = (\<lambda>symbol. Some [''last'' \<mapsto> 100]),
      fetch_ohlcv = (\<lambda>symbol timeframe limit. Some (map candle rising_closes)),
      create_order = (\<lambda>req. Some \<lparr>order_id = ''42''\<rparr>)\<rparr>"

text \<open>
  The same world seen from inside a running event loop, which is where \<^verbatim>\<open>main.py\<close> and
  \<^verbatim>\<open>telegram_bot.py\<close> run the coroutine \<^verbatim>\<open>execute_trade\<close>.
\<close>

definition loop_world :: "real world" where
  "loop_world = calm_world\<lparr>loop_running := True\<rparr>"

text \<open>The calm world with another history of closes.\<close>

definition history_world :: "real list \<Rightarrow> real world" where
  "history_world closes =
     calm_world\<lparr>fetch_ohlcv := \<lambda>symbol timeframe limit. Some (map candle closes)\<rparr>"

text \<open>An exchange that accepts entry orders and refuses the exit orders.\<close>

definition entries_only :: "real order_request \<Rightarrow> order option" where
  "entries_only req = (if req_type req = ''market'' then Some \<lparr>order_id = ''42''\<rparr> else None)"

section \<open>Auxiliary facts\<close>

subsection \<open>The risk gate\<close>

lemma gate_state:
  "snd (check_risk_management fp w self) =
     (if last_reset_date self < today w
      then self\<lparr>daily_pnl := flit fp 0, last_reset_date := today w\<rparr> else self)"
  by (simp add: check_risk_management_def Let_def)

lemma gate_keeps_positions [simp]:
  "positions (snd (check_risk_management fp w self)) = positions self"
  by (simp add: gate_state)

lemma gate_keeps_settings [simp]:
  "trade_amount (snd (check_risk_management fp w self)) = trade_amount self"
  "stop_loss_percent (snd (check_risk_management fp w self)) = stop_loss_percent self"
  "take_profit_percent (snd (check_risk_management fp w self)) = take_profit_percent self"
  "is_trading (snd (check_risk_management fp w self)) = is_trading self"
  by (simp_all add: gate_state)

lemma balance_too_low_frame [simp]:
  "balance_too_low fp w (self\<lparr>daily_pnl := x, last_reset_date := d\<rparr>) = balance_too_low fp w self"
  "balance_too_low fp w (self\<lparr>daily_pnl := x\<rparr>) = balance_too_low fp w self"
  by (simp_all add: balance_too_low_def split: sum.splits)

text \<open>Inside a running event loop the balance is never fetched, and the test is passed over.\<close>

lemma balance_in_loop: "loop_running w \<Longrightarrow> \<not> balance_too_low fp w self"
  by (simp add: balance_too_low_def asyncio_run_def)


lemma gate_allows:
  assumes "\<not> last_reset_date self < today w"
    and "\<not> daily_pnl self \<le> fneg fp (max_daily_loss self)"
    and "\<not> balance_too_low fp w self"
    and "int (length (positions self)) < max_positions self"
  shows "check_risk_management fp w self = (True, self)"
  using assms by (simp add: check_risk_management_def)

lemma exits_after_gate [simp]:
  "set_stop_loss_take_profit fp w (snd (check_risk_management fp w self)) symbol sd entry amt
     = set_stop_loss_take_profit fp w self symbol sd entry amt"
  by (simp add: set_stop_loss_take_profit_def)


subsection \<open>The signal\<close>

text \<open>Inside a running event loop the history is never fetched, and the signal is hold.\<close>

lemma strategy_in_loop:
  "loop_running w \<Longrightarrow> simple_strategy fp w symbol = (Hold, flit fp 0)"
  by (simp add: simple_strategy_def simple_strategy_body_def asyncio_run_def)

lemma strategy_on_averages:
  assumes "\<not> loop_running w"
    and "closes_of (get_ohlcv w symbol ''1h'' 50) = Inr closes"
    and "calculate_sma fp closes 20 = Inr (Some s20)"
    and "calculate_sma fp closes 50 = Inr (Some s50)"
  shows "simple_strategy fp w symbol =
           (case crossover fp s20 s50 (last closes) of Inl e \<Rightarrow> (Hold, flit fp 0) | Inr r \<Rightarrow> r)"
proof -
  have "get_ohlcv w symbol ''1h'' 50 \<noteq> []"
  proof
    assume "get_ohlcv w symbol ''1h'' 50 = []"
    with assms(2) have "closes = []" by simp
    with assms(4) show False by (simp add: calculate_sma_def)
  qed
  with assms show ?thesis
    by (simp add: simple_strategy_def simple_strategy_body_def asyncio_run_def)
qed


subsection \<open>The paths through \<^verbatim>\<open>execute_trade\<close>\<close>

lemma execute_trade_denied:
  assumes "\<not> fst (check_risk_management fp w self)"
  shows "execute_trade fp w self symbol = (None, snd (check_risk_management fp w self), [])"
  using assms by (cases "check_risk_management fp w self") (simp add: execute_trade_def)

lemma execute_trade_no_signal:
  assumes "entry_side fp w symbol = Hold \<or> snd (simple_strategy fp w symbol) < flit fp (3 / 10)"
  shows "execute_trade fp w self symbol = (None, snd (check_risk_management fp w self), [])"
  using assms
  by (cases "check_risk_management fp w self"; cases "simple_strategy fp w symbol")
     (auto simp add: execute_trade_def)

lemma execute_trade_no_price:
  assumes "current_price_of fp w symbol = flit fp 0"
  shows "execute_trade fp w self symbol = (None, snd (check_risk_management fp w self), [])"
  using assms
  by (cases "check_risk_management fp w self"; cases "simple_strategy fp w symbol")
     (auto simp add: execute_trade_def Let_def)


lemma execute_trade_entry:
  assumes "reaches_entry fp w self symbol"
  shows "execute_trade fp w self symbol =
     (case fst (place_order w symbol (entry_side fp w symbol) (entry_amount fp w self symbol)) of
        None \<Rightarrow>
          (None, snd (check_risk_management fp w self),
           snd (place_order w symbol (entry_side fp w symbol) (entry_amount fp w self symbol)))
      | Some ord \<Rightarrow>
          (Some ord,
           snd (check_risk_management fp w self)\<lparr>positions :=
             AList.update symbol (recorded_position fp w self symbol ord) (positions self)\<rparr>,
           snd (place_order w symbol (entry_side fp w symbol) (entry_amount fp w self symbol)) @
             snd (set_stop_loss_take_profit fp w self symbol (entry_side fp w symbol)
                    (current_price_of fp w symbol) (entry_amount fp w self symbol))))"
proof -
  obtain ok self1 where g: "check_risk_management fp w self = (ok, self1)"
    by (cases "check_risk_management fp w self")
  obtain sg conf where st: "simple_strategy fp w symbol = (sg, conf)"
    by (cases "simple_strategy fp w symbol")
  have s1: "self1 = snd (check_risk_management fp w self)" using g by simp
  have ta: "trade_amount self1 = trade_amount self" and ps: "positions self1 = positions self"
    and ex: "set_stop_loss_take_profit fp w self1 = set_stop_loss_take_profit fp w self"
    unfolding s1 by (simp_all add: fun_eq_iff)
  show ?thesis
    using assms
    by (simp add: reaches_entry_def execute_trade_def g st Let_def ta ps ex
        split: prod.splits option.splits)
qed

lemma reaches_entry_side:
  assumes "reaches_entry fp w self symbol"
  shows "entry_side fp w symbol = Buy \<or> entry_side fp w symbol = Sell"
  using assms by (cases "entry_side fp w symbol") (simp_all add: reaches_entry_def)

lemma reaches_entry_outside_loop:
  assumes "reaches_entry fp w self symbol"
  shows "\<not> loop_running w"
  using assms strategy_in_loop [of w fp symbol] by (auto simp add: reaches_entry_def)

lemma entry_requests:
  assumes "reaches_entry fp w self symbol"
  shows "place_order w symbol (entry_side fp w symbol) amt =
           (create_order w (market_request symbol (entry_side fp w symbol) amt),
            [market_request symbol (entry_side fp w symbol) amt])"
  using reaches_entry_side [OF assms] by (auto simp add: place_order_def)


text \<open>A call that does not reach the entry order is a no-trade that sends nothing.\<close>

lemma execute_trade_short:
  assumes "\<not> reaches_entry fp w self symbol"
  shows "execute_trade fp w self symbol = (None, snd (check_risk_management fp w self), [])"
proof -
  from assms consider "\<not> fst (check_risk_management fp w self)"
    | "entry_side fp w symbol = Hold \<or> snd (simple_strategy fp w symbol) < flit fp (3 / 10)"
    | "current_price_of fp w symbol = flit fp 0"
    by (auto simp add: reaches_entry_def)
  then show ?thesis
    by cases (simp_all add: execute_trade_denied execute_trade_no_signal execute_trade_no_price)
qed

text \<open>Neither the gate nor the signal nor the price depends on the answers to orders.\<close>

lemma orders_frame [simp]:
  "check_risk_management fp (w\<lparr>create_order := f\<rparr>) self = check_risk_management fp w self"
  "simple_strategy fp (w\<lparr>create_order := f\<rparr>) symbol = simple_strategy fp w symbol"
  "get_ticker (w\<lparr>create_order := f\<rparr>) symbol = get_ticker w symbol"
  "reaches_entry fp (w\<lparr>create_order := f\<rparr>) self symbol = reaches_entry fp w self symbol"
proof -
  show g: "check_risk_management fp (w\<lparr>create_order := f\<rparr>) self = check_risk_management fp w self"
    by (simp add: check_risk_management_def balance_too_low_def asyncio_run_def get_balance_def
        Let_def)
  show s: "simple_strategy fp (w\<lparr>create_order := f\<rparr>) symbol = simple_strategy fp w symbol"
    by (simp add: simple_strategy_def simple_strategy_body_def asyncio_run_def get_ohlcv_def)
  show t: "get_ticker (w\<lparr>create_order := f\<rparr>) symbol = get_ticker w symbol"
    by (simp add: get_ticker_def)
  show "reaches_entry fp (w\<lparr>create_order := f\<rparr>) self symbol = reaches_entry fp w self symbol"
    by (simp add: reaches_entry_def g s t)
qed

text \<open>Nor do the gate and the signal depend on the ticker.\<close>

lemma ticker_frame [simp]:
  "check_risk_management fp (w\<lparr>fetch_ticker := f\<rparr>) self = check_risk_management fp w self"
  "simple_strategy fp (w\<lparr>fetch_ticker := f\<rparr>) symbol = simple_strategy fp w symbol"
proof -
  show "check_risk_management fp (w\<lparr>fetch_ticker := f\<rparr>) self = check_risk_management fp w self"
    by (simp add: check_risk_management_def balance_too_low_def asyncio_run_def get_balance_def
        Let_def)
  show "simple_strategy fp (w\<lparr>fetch_ticker := f\<rparr>) symbol = simple_strategy fp w symbol"
    by (simp add: simple_strategy_def simple_strategy_body_def asyncio_run_def get_ohlcv_def)
qed


text \<open>The returned value and the ledger depend on the answers to entry orders only.\<close>

lemma exits_frame:
  assumes "\<And>req. req_type req = ''market'' \<Longrightarrow> f req = create_order w req"
  shows "fst (execute_trade fp (w\<lparr>create_order := f\<rparr>) self symbol) = fst (execute_trade fp w self symbol)"
    and "positions (fst (snd (execute_trade fp (w\<lparr>create_order := f\<rparr>) self symbol)))
           = positions (fst (snd (execute_trade fp w self symbol)))"
proof -
  let ?w = "w\<lparr>create_order := f\<rparr>"
  have m: "f (market_request symbol sd amt) = create_order w (market_request symbol sd amt)"
    for sd amt by (rule assms) (simp add: market_request_def)
  have p: "fst (place_order ?w symbol sd amt) = fst (place_order w symbol sd amt)" for sd amt
    by (simp add: place_order_def m)
  have "fst (execute_trade fp ?w self symbol) = fst (execute_trade fp w self symbol)
      \<and> positions (fst (snd (execute_trade fp ?w self symbol)))
           = positions (fst (snd (execute_trade fp w self symbol)))"
  proof (cases "reaches_entry fp w self symbol")
    case True
    then have r': "reaches_entry fp ?w self symbol" by simp
    show ?thesis
      unfolding execute_trade_entry [OF True] execute_trade_entry [OF r']
      by (simp add: p split: option.splits)
  next
    case False
    then have r': "\<not> reaches_entry fp ?w self symbol" by simp
    show ?thesis
      by (simp add: execute_trade_short [OF False] execute_trade_short [OF r'])
  qed
  then show "fst (execute_trade fp ?w self symbol) = fst (execute_trade fp w self symbol)"
    and "positions (fst (snd (execute_trade fp ?w self symbol)))
           = positions (fst (snd (execute_trade fp w self symbol)))"
    by simp_all
qed


subsection \<open>The ledger invariant\<close>


lemma ledger_inv_frame [simp]:
  "ledger_inv fp (self\<lparr>daily_pnl := x, last_reset_date := d\<rparr>) = ledger_inv fp self"
  "ledger_inv fp (self\<lparr>is_trading := b\<rparr>) = ledger_inv fp self"
  by (simp_all add: ledger_inv_def)



subsection \<open>The concrete bots and worlds\<close>

lemma exact_ops [simp]:
  "flit exact x = x"
  "fadd exact x y = x + y"
  "fsub exact x y = x - y"
  "fmul exact x y = x * y"
  "fdiv exact x y = x / y"
  "fneg exact x = - x"
  by (simp_all add: exact_def)

lemma foldl_plus: "foldl (+) (a::real) xs = a + sum_list xs"
  by (induction xs arbitrary: a) simp_all

lemma fsum_exact [simp]: "fsum exact xs = sum_list xs"
  by (simp add: fsum_def foldl_plus fun_eq_iff exact_def)

lemma calm_world_fields [simp]:
  "loop_running calm_world = False"
  "today calm_world = 19000"
  "now_iso calm_world = ''2022-01-08T12:00:00''"
  "fetch_balance calm_world = Some [''USDT'' \<mapsto> [''free'' \<mapsto> 1000]]"
  "fetch_ticker calm_world = (\<lambda>symbol. Some [''last'' \<mapsto> 100])"
  "fetch_ohlcv calm_world = (\<lambda>symbol timeframe limit. Some (map candle rising_closes))"
  "create_order calm_world = (\<lambda>req. Some \<lparr>order_id = ''42''\<rparr>)"
  by (simp_all add: calm_world_def)

lemma loop_world_fields [simp]:
  "loop_running loop_world = True"
  "today loop_world = 19000"
  "fetch_ticker loop_world = (\<lambda>symbol. Some [''last'' \<mapsto> 100])"
  "create_order loop_world = (\<lambda>req. Some \<lparr>order_id = ''42''\<rparr>)"
  by (simp_all add: loop_world_def)

lemma default_bot_fields [simp]:
  "trade_amount default_bot = 10"
  "stop_loss_percent default_bot = 2"
  "take_profit_percent default_bot = 5"
  "max_positions default_bot = 3"
  "max_daily_loss default_bot = 100"
  "min_balance default_bot = 50"
  "positions default_bot = []"
  "daily_pnl default_bot = 0"
  "last_reset_date default_bot = 19000"
  "is_trading default_bot = False"
  by (simp_all add: default_bot_def)

lemma held_bot_fields [simp]:
  "trade_amount held_bot = 10"
  "stop_loss_percent held_bot = 2"
  "take_profit_percent held_bot = 5"
  "max_positions held_bot = 3"
  "max_daily_loss held_bot = 100"
  "min_balance held_bot = 50"
  "positions held_bot = [(''BTC/USDT'', held_position)]"
  "daily_pnl held_bot = 0"
  "last_reset_date held_bot = 19000"
  by (simp_all add: held_bot_def)

lemma closes_of_candles: "closes_of (map candle cs) = Inr cs"
  by (induction cs) (simp_all add: candle_def)

lemma history_world_facts [simp]:
  "loop_running (history_world h) = False"
  "closes_of (get_ohlcv (history_world h) symbol ''1h'' 50) = Inr h"
  by (simp_all add: history_world_def get_ohlcv_def closes_of_candles)

lemma rising_closes_facts:
  "last rising_closes = 200"
  "calculate_sma exact rising_closes 20 = Inr (Some 105)"
  "calculate_sma exact rising_closes 50 = Inr (Some 102)"
  by (simp_all add: calculate_sma_def rising_closes_def sum_list_replicate)





lemma strategy_on_rising:
  assumes "\<not> loop_running w"
    and "fetch_ohlcv w symbol ''1h'' 50 = Some (map candle rising_closes)"
  shows "simple_strategy exact w symbol = (Buy, 1)"
proof -
  have "closes_of (get_ohlcv w symbol ''1h'' 50) = Inr rising_closes"
    using assms(2) by (simp add: get_ohlcv_def closes_of_candles)
  from strategy_on_averages [OF assms(1) this rising_closes_facts(2,3)]
  show ?thesis by (simp add: crossover_def rising_closes_facts)
qed

lemma rich_balance:
  assumes "fetch_balance w = Some [''USDT'' \<mapsto> [''free'' \<mapsto> 1000]]"
    and "min_balance self = 50"
  shows "\<not> balance_too_low exact w self"
  using assms
  by (simp add: balance_too_low_def asyncio_run_def get_balance_def usdt_free_def get_or_zero_def)

lemma gate_calm_default:
  "check_risk_management exact calm_world default_bot = (True, default_bot)"
  by (rule gate_allows) (simp_all add: rich_balance)

lemma gate_calm_held: "check_risk_management exact calm_world held_bot = (True, held_bot)"
  by (rule gate_allows) (simp_all add: rich_balance)

lemma gate_loop_held: "check_risk_management exact loop_world held_bot = (True, held_bot)"
  by (rule gate_allows) (simp_all add: balance_in_loop)


lemma price_calm: "current_price_of exact calm_world symbol = 100"
  by (simp add: get_ticker_def get_or_zero_def)

lemma strategy_calm: "simple_strategy exact calm_world symbol = (Buy, 1)"
  by (rule strategy_on_rising) simp_all




section \<open>The claims\<close>

subsection \<open>C1: a second trade on an instrument that has a position\<close>




subsection \<open>C2: the balance check when the balance cannot be fetched\<close>

text \<open>
  C2 at a failing input. The default bot (minimum balance 50, no loss, no position) is let
  through in the calm world. In the same world with a balance fetch that raises,
  \<^verbatim>\<open>get_balance\<close> answers \<^verbatim>\<open>{}\<close>, the free balance is read as 0, and the gate denies
  although the loss check and the position check both pass.
\<close>

theorem balance_fetch_failure_denies:
  "fetch_balance (calm_world\<lparr>fetch_balance := None\<rparr>) = None
   \<and> \<not> daily_pnl default_bot \<le> - max_daily_loss default_bot
   \<and> int (length (positions default_bot)) < max_positions default_bot
   \<and> check_risk_management exact calm_world default_bot = (True, default_bot)
   \<and> check_risk_management exact (calm_world\<lparr>fetch_balance := None\<rparr>) default_bot
       = (False, default_bot)"
  by (simp add: gate_calm_default)
     (simp add: check_risk_management_def balance_too_low_def asyncio_run_def get_balance_def
        usdt_free_def get_or_zero_def)

subsection \<open>C3: the crossover signal and its confidence\<close>




subsection \<open>C4: the current price and the sizing of the order\<close>



subsection \<open>C5: the ledger invariant\<close>



subsection \<open>C6: the daily rollover\<close>

text \<open>
  C6. When the current date is later than the last-reset date, the bot that the gate returns
  is the given one with the daily PnL set to 0 and the last-reset date set to the current
  date, whatever the verdict; the call is the call on that reset bot, so every check sees the
  reset state; the result is the same for every daily PnL the bot had before; and the gate
  allows exactly when the zero PnL is above the negated loss limit, the balance test does
  not deny and there is room for a position. A loss of the day before, at the limit or
  beyond, has no part in the verdict.
\<close>

theorem daily_rollover:
  "last_reset_date self < today w \<longrightarrow>
     snd (check_risk_management fp w self)
       = self\<lparr>daily_pnl := flit fp 0, last_reset_date := today w\<rparr>
     \<and> check_risk_management fp w self
       = check_risk_management fp w (self\<lparr>daily_pnl := flit fp 0, last_reset_date := today w\<rparr>)
     \<and> check_risk_management fp w (self\<lparr>daily_pnl := x\<rparr>) = check_risk_management fp w self
     \<and> fst (check_risk_management fp w self)
       = (\<not> flit fp 0 \<le> fneg fp (max_daily_loss self)
          \<and> \<not> balance_too_low fp w self
          \<and> int (length (positions self)) < max_positions self)"
  by (auto simp add: check_risk_management_def Let_def)

text \<open>
  The default bot with a loss of 100 booked the day before: denied on that day, allowed on
  the next with the loss reset, and, with no room for a position, denied on the next day
  with the loss reset all the same.
\<close>

theorem daily_rollover_witness:
  "last_reset_date (default_bot\<lparr>daily_pnl := - 100, last_reset_date := 18999\<rparr>) < today calm_world
   \<and> check_risk_management exact (calm_world\<lparr>today := 18999\<rparr>)
        (default_bot\<lparr>daily_pnl := - 100, last_reset_date := 18999\<rparr>)
       = (False, default_bot\<lparr>daily_pnl := - 100, last_reset_date := 18999\<rparr>)
   \<and> check_risk_management exact calm_world
        (default_bot\<lparr>daily_pnl := - 100, last_reset_date := 18999\<rparr>)
       = (True, default_bot\<lparr>daily_pnl := 0, last_reset_date := 19000\<rparr>)
   \<and> check_risk_management exact calm_world
        (default_bot\<lparr>daily_pnl := - 100, last_reset_date := 18999, max_positions := 0\<rparr>)
       = (False, default_bot\<lparr>daily_pnl := 0, last_reset_date := 19000, max_positions := 0\<rparr>)"
proof -
  let ?b = "default_bot\<lparr>daily_pnl := - 100, last_reset_date := 18999\<rparr>"
  let ?c = "default_bot\<lparr>daily_pnl := - 100, last_reset_date := 18999, max_positions := 0\<rparr>"
  note allowed = daily_rollover [of ?b calm_world exact 0]
  note denied = daily_rollover [of ?c calm_world exact 0]
  have d: "last_reset_date ?b < today calm_world" "last_reset_date ?c < today calm_world"
    by simp_all
  have y: "check_risk_management exact (calm_world\<lparr>today := 18999\<rparr>) ?b = (False, ?b)"
    by (simp add: check_risk_management_def)
  have r: "\<not> balance_too_low exact calm_world ?b" "\<not> balance_too_low exact calm_world ?c"
    by (simp_all add: rich_balance)
  from allowed d(1) have sa: "snd (check_risk_management exact calm_world ?b)
           = ?b\<lparr>daily_pnl := flit exact 0, last_reset_date := today calm_world\<rparr>"
    and va: "fst (check_risk_management exact calm_world ?b)
           = (\<not> flit exact 0 \<le> fneg exact (max_daily_loss ?b)
              \<and> \<not> balance_too_low exact calm_world ?b
              \<and> int (length (positions ?b)) < max_positions ?b)"
    by blast+
  from va r(1) have "fst (check_risk_management exact calm_world ?b)" by simp
  with sa have a: "check_risk_management exact calm_world ?b
       = (True, default_bot\<lparr>daily_pnl := 0, last_reset_date := 19000\<rparr>)"
    by (cases "check_risk_management exact calm_world ?b") simp
  from denied d(2) have sb: "snd (check_risk_management exact calm_world ?c)
           = ?c\<lparr>daily_pnl := flit exact 0, last_reset_date := today calm_world\<rparr>"
    and vb: "fst (check_risk_management exact calm_world ?c)
           = (\<not> flit exact 0 \<le> fneg exact (max_daily_loss ?c)
              \<and> \<not> balance_too_low exact calm_world ?c
              \<and> int (length (positions ?c)) < max_positions ?c)"
    by blast+
  from vb have "\<not> fst (check_risk_management exact calm_world ?c)" by simp
  with sb have b: "check_risk_management exact calm_world ?c
       = (False, default_bot\<lparr>daily_pnl := 0, last_reset_date := 19000, max_positions := 0\<rparr>)"
    by (cases "check_risk_management exact calm_world ?c") (simp add: default_bot_def)
  from d y a b show ?thesis by simp
qed

subsection \<open>C7: failure of the entry order\<close>

text \<open>
  C7. If the exchange fails the entry order of the call, \<^verbatim>\<open>execute_trade\<close> returns
  \<^verbatim>\<open>None\<close>, the bot is as the risk gate left it, with its ledger unchanged, and the
  requests sent are the entry order alone when the call got as far as submitting it and
  none otherwise: no exit order is submitted.
\<close>

theorem entry_failure_aborts:
  "create_order w (market_request symbol (entry_side fp w symbol) (entry_amount fp w self symbol))
     = None \<longrightarrow>
   execute_trade fp w self symbol =
     (None, snd (check_risk_management fp w self),
      if reaches_entry fp w self symbol
      then [market_request symbol (entry_side fp w symbol) (entry_amount fp w self symbol)]
      else [])
   \<and> positions (fst (snd (execute_trade fp w self symbol))) = positions self
   \<and> (\<not> last_reset_date self < today w \<longrightarrow> fst (snd (execute_trade fp w self symbol)) = self)"
proof (intro impI)
  assume f: "create_order w (market_request symbol (entry_side fp w symbol)
               (entry_amount fp w self symbol)) = None"
  have e: "execute_trade fp w self symbol =
     (None, snd (check_risk_management fp w self),
      if reaches_entry fp w self symbol
      then [market_request symbol (entry_side fp w symbol) (entry_amount fp w self symbol)]
      else [])"
  proof (cases "reaches_entry fp w self symbol")
    case True
    show ?thesis
      unfolding execute_trade_entry [OF True] using f True
      by (simp add: entry_requests [OF True])
  next
    case False
    then show ?thesis by (simp add: execute_trade_short)
  qed
  then show "execute_trade fp w self symbol =
     (None, snd (check_risk_management fp w self),
      if reaches_entry fp w self symbol
      then [market_request symbol (entry_side fp w symbol) (entry_amount fp w self symbol)]
      else [])
   \<and> positions (fst (snd (execute_trade fp w self symbol))) = positions self
   \<and> (\<not> last_reset_date self < today w \<longrightarrow> fst (snd (execute_trade fp w self symbol)) = self)"
    by (simp add: gate_state)
qed

text \<open>
  An exchange that fails every order: outside a loop the entry order is sent and nothing
  else; inside a loop nothing is sent at all.
\<close>

theorem entry_failure_aborts_witness:
  "create_order (calm_world\<lparr>create_order := \<lambda>req. None\<rparr>) (market_request ''BTC/USDT'' Buy (1 / 10))
     = None
   \<and> reaches_entry exact (calm_world\<lparr>create_order := \<lambda>req. None\<rparr>) held_bot ''BTC/USDT''
   \<and> execute_trade exact (calm_world\<lparr>create_order := \<lambda>req. None\<rparr>) held_bot ''BTC/USDT''
       = (None, held_bot, [market_request ''BTC/USDT'' Buy (1 / 10)])
   \<and> \<not> reaches_entry exact (loop_world\<lparr>create_order := \<lambda>req. None\<rparr>) held_bot ''BTC/USDT''
   \<and> execute_trade exact (loop_world\<lparr>create_order := \<lambda>req. None\<rparr>) held_bot ''BTC/USDT''
       = (None, held_bot, [])"
proof -
  let ?wo = "calm_world\<lparr>create_order := \<lambda>req. None\<rparr>"
  let ?wi = "loop_world\<lparr>create_order := \<lambda>req. None\<rparr>"
  note outside = entry_failure_aborts [of ?wo "''BTC/USDT''" exact held_bot]
  note inside = entry_failure_aborts [of ?wi "''BTC/USDT''" exact held_bot]
  have c: "create_order ?wo (market_request ''BTC/USDT'' Buy (1 / 10)) = None" by simp
  have r: "reaches_entry exact ?wo held_bot ''BTC/USDT''"
    by (simp add: reaches_entry_def gate_calm_held strategy_calm price_calm)
  have n: "\<not> reaches_entry exact ?wi held_bot ''BTC/USDT''"
    using reaches_entry_outside_loop [of exact loop_world held_bot "''BTC/USDT''"] by auto
  have g: "snd (check_risk_management exact calm_world held_bot) = held_bot"
    "snd (check_risk_management exact loop_world held_bot) = held_bot"
    by (simp_all add: gate_calm_held gate_loop_held)
  from outside r g have a: "execute_trade exact ?wo held_bot ''BTC/USDT''
       = (None, held_bot, [market_request ''BTC/USDT'' Buy (1 / 10)])"
    by (simp add: strategy_calm price_calm)
  from inside n g have b: "execute_trade exact ?wi held_bot ''BTC/USDT'' = (None, held_bot, [])"
    by simp
  from c r a n b show ?thesis by simp
qed

subsection \<open>C8: failure of the exit orders\<close>

text \<open>
  C8. If a call reaches the entry order, the exchange accepts it and
  \<^verbatim>\<open>set_stop_loss_take_profit\<close> fails (it answers \<^verbatim>\<open>(None, None)\<close>), then \<^verbatim>\<open>execute_trade\<close>
  returns the entry order and the ledger holds the new position of the instrument. More
  generally the returned value and the ledger are the same for any two exchanges that
  answer the entry orders alike, however they answer the exit orders. (A call reaches the
  entry order only outside a running event loop.)
\<close>

theorem exit_failure_keeps_position:
  "(reaches_entry fp w self symbol
    \<and> create_order w (market_request symbol (entry_side fp w symbol) (entry_amount fp w self symbol))
        = Some ord
    \<and> fst (set_stop_loss_take_profit fp w self symbol (entry_side fp w symbol)
             (current_price_of fp w symbol) (entry_amount fp w self symbol)) = (None, None) \<longrightarrow>
    execute_trade fp w self symbol =
      (Some ord,
       snd (check_risk_management fp w self)\<lparr>positions :=
         AList.update symbol (recorded_position fp w self symbol ord) (positions self)\<rparr>,
       market_request symbol (entry_side fp w symbol) (entry_amount fp w self symbol) #
         snd (set_stop_loss_take_profit fp w self symbol (entry_side fp w symbol)
                (current_price_of fp w symbol) (entry_amount fp w self symbol)))
    \<and> map_of (positions (fst (snd (execute_trade fp w self symbol)))) symbol
        = Some (recorded_position fp w self symbol ord))
   \<and> ((\<forall>req. req_type req = ''market'' \<longrightarrow> f req = create_order w req) \<longrightarrow>
        fst (execute_trade fp (w\<lparr>create_order := f\<rparr>) self symbol)
          = fst (execute_trade fp w self symbol)
        \<and> positions (fst (snd (execute_trade fp (w\<lparr>create_order := f\<rparr>) self symbol)))
          = positions (fst (snd (execute_trade fp w self symbol))))"
proof (intro conjI impI)
  assume a: "reaches_entry fp w self symbol
   \<and> create_order w (market_request symbol (entry_side fp w symbol) (entry_amount fp w self symbol))
       = Some ord
   \<and> fst (set_stop_loss_take_profit fp w self symbol (entry_side fp w symbol)
            (current_price_of fp w symbol) (entry_amount fp w self symbol)) = (None, None)"
  then have r: "reaches_entry fp w self symbol" by simp
  show e: "execute_trade fp w self symbol =
     (Some ord,
      snd (check_risk_management fp w self)\<lparr>positions :=
        AList.update symbol (recorded_position fp w self symbol ord) (positions self)\<rparr>,
      market_request symbol (entry_side fp w symbol) (entry_amount fp w self symbol) #
        snd (set_stop_loss_take_profit fp w self symbol (entry_side fp w symbol)
               (current_price_of fp w symbol) (entry_amount fp w self symbol)))"
    unfolding execute_trade_entry [OF r] using a by (simp add: entry_requests [OF r])
  show "map_of (positions (fst (snd (execute_trade fp w self symbol)))) symbol
       = Some (recorded_position fp w self symbol ord)"
    by (simp add: e update_conv')
next
  assume f: "\<forall>req. req_type req = ''market'' \<longrightarrow> f req = create_order w req"
  then show "fst (execute_trade fp (w\<lparr>create_order := f\<rparr>) self symbol)
          = fst (execute_trade fp w self symbol)"
    and "positions (fst (snd (execute_trade fp (w\<lparr>create_order := f\<rparr>) self symbol)))
          = positions (fst (snd (execute_trade fp w self symbol)))"
    by (simp_all add: exits_frame)
qed

text \<open>
  An exchange that accepts the entry order and fails the stop order: the order 42 is
  returned and the position recorded, as with the exchange that accepts everything.
\<close>

theorem exit_failure_keeps_position_witness:
  "reaches_entry exact (calm_world\<lparr>create_order := entries_only\<rparr>) default_bot ''BTC/USDT''
   \<and> create_order (calm_world\<lparr>create_order := entries_only\<rparr>)
        (market_request ''BTC/USDT'' Buy (1 / 10)) = Some \<lparr>order_id = ''42''\<rparr>
   \<and> set_stop_loss_take_profit exact (calm_world\<lparr>create_order := entries_only\<rparr>) default_bot
        ''BTC/USDT'' Buy 100 (1 / 10)
       = ((None, None), [stop_request ''BTC/USDT'' Sell (1 / 10) 98])
   \<and> execute_trade exact (calm_world\<lparr>create_order := entries_only\<rparr>) default_bot ''BTC/USDT''
       = (Some \<lparr>order_id = ''42''\<rparr>,
          default_bot\<lparr>positions :=
            [(''BTC/USDT'', \<lparr>side = Buy, amount = 1 / 10, entry_price = 100,
               timestamp = ''2022-01-08T12:00:00'', pos_order_id = ''42''\<rparr>)]\<rparr>,
          [market_request ''BTC/USDT'' Buy (1 / 10),
           stop_request ''BTC/USDT'' Sell (1 / 10) 98])
   \<and> fst (execute_trade exact (calm_world\<lparr>create_order := entries_only\<rparr>) default_bot ''BTC/USDT'')
       = fst (execute_trade exact calm_world default_bot ''BTC/USDT'')
   \<and> positions (fst (snd (execute_trade exact (calm_world\<lparr>create_order := entries_only\<rparr>)
        default_bot ''BTC/USDT'')))
       = positions (fst (snd (execute_trade exact calm_world default_bot ''BTC/USDT'')))
   \<and> fst (execute_trade exact (loop_world\<lparr>create_order := entries_only\<rparr>) default_bot ''BTC/USDT'')
       = fst (execute_trade exact loop_world default_bot ''BTC/USDT'')"
proof -
  let ?w = "calm_world\<lparr>create_order := entries_only\<rparr>"
  note th = exit_failure_keeps_position
    [where fp = exact and w = ?w and self = default_bot and symbol = "''BTC/USDT''"
       and ord = "\<lparr>order_id = ''42''\<rparr>"]
  note ind = exit_failure_keeps_position
    [where fp = exact and w = calm_world and self = default_bot and symbol = "''BTC/USDT''"
       and f = entries_only]
  note ind' = exit_failure_keeps_position
    [where fp = exact and w = loop_world and self = default_bot and symbol = "''BTC/USDT''"
       and f = entries_only]
  have r: "reaches_entry exact ?w default_bot ''BTC/USDT''"
    by (simp add: reaches_entry_def gate_calm_default strategy_calm price_calm)
  have s: "entry_side exact ?w ''BTC/USDT'' = Buy"
    and p: "current_price_of exact ?w ''BTC/USDT'' = 100"
    by (simp_all add: strategy_calm price_calm)
  have c: "create_order ?w (market_request ''BTC/USDT'' Buy (1 / 10)) = Some \<lparr>order_id = ''42''\<rparr>"
    by (simp add: entries_only_def market_request_def)
  have x: "set_stop_loss_take_profit exact ?w default_bot ''BTC/USDT'' Buy 100 (1 / 10)
       = ((None, None), [stop_request ''BTC/USDT'' Sell (1 / 10) 98])"
    by (simp add: set_stop_loss_take_profit_def submit_exits_def entries_only_def stop_request_def)
  have g: "snd (check_risk_management exact calm_world default_bot) = default_bot"
    by (simp add: gate_calm_default)
  from th r c x s p g have e: "execute_trade exact ?w default_bot ''BTC/USDT''
       = (Some \<lparr>order_id = ''42''\<rparr>,
          default_bot\<lparr>positions :=
            [(''BTC/USDT'', \<lparr>side = Buy, amount = 1 / 10, entry_price = 100,
               timestamp = ''2022-01-08T12:00:00'', pos_order_id = ''42''\<rparr>)]\<rparr>,
          [market_request ''BTC/USDT'' Buy (1 / 10),
           stop_request ''BTC/USDT'' Sell (1 / 10) 98])"
    by simp
  have m: "\<forall>req. req_type req = ''market'' \<longrightarrow> entries_only req = create_order calm_world req"
    "\<forall>req. req_type req = ''market'' \<longrightarrow> entries_only req = create_order loop_world req"
    by (simp_all add: entries_only_def)
  from ind m(1) have i: "fst (execute_trade exact ?w default_bot ''BTC/USDT'')
       = fst (execute_trade exact calm_world default_bot ''BTC/USDT'')"
    "positions (fst (snd (execute_trade exact ?w default_bot ''BTC/USDT'')))
       = positions (fst (snd (execute_trade exact calm_world default_bot ''BTC/USDT'')))"
    by blast+
  from ind' m(2) have i': "fst (execute_trade exact (loop_world\<lparr>create_order := entries_only\<rparr>)
        default_bot ''BTC/USDT'') = fst (execute_trade exact loop_world default_bot ''BTC/USDT'')"
    by blast
  from r c x e i i' show ?thesis by blast
qed

subsection \<open>C9: the prices of the exit orders\<close>



subsection \<open>C10: the status\<close>

text \<open>
  C10. \<^verbatim>\<open>get_status\<close> returns the bot as it was, and reports its trading flag, the number
  of its positions and its daily PnL; asking again gives the same answer. After a day
  boundary it reports the daily PnL of the day before and leaves the last-reset date in the
  past; the status taken after the next call of the risk gate reports 0.
\<close>

theorem status_is_read_only:
  "snd (get_status self) = self
   \<and> st_is_trading (fst (get_status self)) = is_trading self
   \<and> st_positions (fst (get_status self)) = length (positions self)
   \<and> st_daily_pnl (fst (get_status self)) = daily_pnl self
   \<and> get_status (snd (get_status self)) = get_status self
   \<and> (last_reset_date self < today w \<longrightarrow>
        st_daily_pnl (fst (get_status self)) = daily_pnl self
        \<and> last_reset_date (snd (get_status self)) < today w
        \<and> st_daily_pnl (fst (get_status (snd (check_risk_management fp w self)))) = flit fp 0)"
  by (simp add: get_status_def gate_state)

text \<open>
  The default bot with a loss of 100 booked the day before: the status reports -100 and
  returns the bot untouched; after the risk gate has run it reports 0.
\<close>

theorem status_is_read_only_witness:
  "last_reset_date (default_bot\<lparr>daily_pnl := - 100, last_reset_date := 18999\<rparr>) < today calm_world
   \<and> get_status (default_bot\<lparr>daily_pnl := - 100, last_reset_date := 18999\<rparr>)
       = (\<lparr>st_is_trading = False, st_positions = 0, st_daily_pnl = - 100,
           st_exchange = ''binance'', st_sandbox = True\<rparr>,
          default_bot\<lparr>daily_pnl := - 100, last_reset_date := 18999\<rparr>)
   \<and> st_daily_pnl (fst (get_status (snd (check_risk_management exact calm_world
        (default_bot\<lparr>daily_pnl := - 100, last_reset_date := 18999\<rparr>))))) = 0"
proof -
  let ?b = "default_bot\<lparr>daily_pnl := - 100, last_reset_date := 18999\<rparr>"
  note th = status_is_read_only [of ?b calm_world exact]
  have d: "last_reset_date ?b < today calm_world" by simp
  have s: "get_status ?b
       = (\<lparr>st_is_trading = False, st_positions = 0, st_daily_pnl = - 100,
           st_exchange = ''binance'', st_sandbox = True\<rparr>, ?b)"
    by (simp add: get_status_def default_bot_def)
  from th d have "st_daily_pnl (fst (get_status (snd (check_risk_management exact calm_world ?b))))
      = flit exact 0"
    by blast
  with d s show ?thesis by simp
qed

end
